theory Spec2Isabelle
  imports Main
begin

section \<open>Data model (the interfaces of the types module)\<close>

text \<open>
  The TypeScript interfaces become records. Field names carry the name of their
  interface as a prefix (\<open>task_id\<close> for \<open>GanttTask.id\<close>), because several interfaces share
  field names and \<open>id\<close>, \<open>value\<close> and \<open>syntax\<close> are taken in Isabelle. An optional field
  \<open>f?: T\<close> is a \<open>T option\<close>, \<open>None\<close> standing for \<open>undefined\<close>.

  The string-literal unions \<open>TaskStatus\<close>, \<open>DurationUnit\<close>, \<open>DateFormat\<close> and \<open>WeekDay\<close> are
  erased at run time and the validator inspects the raw strings
  (\<open>["d", "w", "h", "m"].includes(task.duration.unit)\<close>), so they stay strings here.
  A string is a list of 8-bit characters, read as code units below 256.
\<close>

text \<open>
  A JavaScript number, as the converter observes it: it is compared with zero and printed
  by a template literal. A finite number other than zero is kept as the decimal digits
  that printing is defined on: \<open>Finite negative s n\<close> is the number of magnitude
  \<open>s \<times> 10\<^sup>n\<^sup>-\<^sup>k\<close>, where \<open>k\<close> is the number of digits of \<open>s\<close> and \<open>s\<close>, positive and
  not divisible by ten, is the shortest significand that reads back as the number. So
  \<open>5\<close> is \<open>Finite False 5 1\<close>, \<open>120\<close> is \<open>Finite False 12 3\<close>, \<open>-1.5\<close> is
  \<open>Finite True 15 1\<close> and \<open>1e21\<close> is \<open>Finite False 1 22\<close>. Every number has exactly one
  such representation. \<open>Zero\<close> stands for both \<open>+0\<close> and \<open>-0\<close>, which compare and print
  alike; \<open>Infinity True\<close> is \<open>-Infinity\<close>.
\<close>

datatype js_number = NaN | Infinity bool | Zero | Finite bool nat int

record Duration =
  dur_value :: js_number
  dur_unit :: string

text \<open>The union type \<open>Duration | string\<close> of \<open>GanttTask.duration\<close>.\<close>

datatype DurationField = DurationObject Duration | DurationString string

record GanttTask =
  task_id :: string
  task_name :: string
  task_start :: string
  task_duration :: DurationField
  task_status :: "string list option"
  task_after :: "string option"

record GanttSection =
  section_name :: string
  section_tasks :: "GanttTask list"

record GanttConfig =
  config_title :: "string option"
  config_dateFormat :: "string option"
  config_excludes :: "string list option"
  config_excludeDates :: "string list option"
  config_enableClick :: "bool option"
  config_displayMode :: "string option"
  config_axisFormat :: "string option"
  config_tickInterval :: "string option"

record GanttData =
  data_config :: "GanttConfig option"
  data_sections :: "GanttSection list"

record ConversionResult =
  result_success :: bool
  result_syntax :: "string option"
  result_error :: "string option"

text \<open>What a dereference of \<open>null\<close> throws.\<close>

datatype js_exception = TypeError


section \<open>JavaScript primitives used by the converter\<close>

text \<open>Truthiness of a value of type \<open>string | undefined\<close> or \<open>string | null\<close>:
  \<open>undefined\<close>, \<open>null\<close> and the empty string are falsy.\<close>

definition truthy :: "string option \<Rightarrow> bool" where
  "truthy v = (case v of None \<Rightarrow> False | Some s \<Rightarrow> s \<noteq> [])"

text \<open>\<open>Array.prototype.join\<close>.\<close>

fun join :: "string \<Rightarrow> string list \<Rightarrow> string" where
  "join sep [] = []"
| "join sep [x] = x"
| "join sep (x # y # ys) = x @ sep @ join sep (y # ys)"

text \<open>The white space that \<open>String.prototype.trim\<close> strips, among the code units below
  256: tab, line feed, vertical tab, form feed, carriage return, space, no-break space.\<close>

definition isWhiteSpace :: "char \<Rightarrow> bool" where
  "isWhiteSpace c =
     (c = CHR 0x09 \<or> c = CHR 0x0A \<or> c = CHR 0x0B \<or> c = CHR 0x0C \<or> c = CHR 0x0D \<or>
      c = CHR 0x20 \<or> c = CHR 0xA0)"

definition trim :: "string \<Rightarrow> string" where
  "trim s = rev (dropWhile isWhiteSpace (rev (dropWhile isWhiteSpace s)))"

text \<open>The regular-expression class \<open>\d\<close>.\<close>

definition isDigit :: "char \<Rightarrow> bool" where
  "isDigit c = (c \<in> set ''0123456789'')"

text \<open>The comparison \<open>x < 0\<close> on numbers; \<open>NaN\<close> compares false with everything.
  The comparison \<open>x === 0\<close> is \<open>x = Zero\<close>.\<close>

fun lessThanZero :: "js_number \<Rightarrow> bool" where
  "lessThanZero NaN = False"
| "lessThanZero (Infinity negative) = negative"
| "lessThanZero Zero = False"
| "lessThanZero (Finite negative s n) = negative"

text \<open>The decimal digits of a natural number.\<close>

fun digitsOf :: "nat \<Rightarrow> string" where
  "digitsOf n =
     (if n < 10 then [''0123456789'' ! n]
      else digitsOf (n div 10) @ [''0123456789'' ! (n mod 10)])"

declare digitsOf.simps [simp del]

text \<open>
  Conversion of a number to a string, as a template literal does it
  (\<open>Number::toString\<close> of the language specification, radix 10), on the digits \<open>s\<close> and the
  exponent \<open>n\<close> of a positive finite number: plain digits padded with zeros when
  \<open>k \<le> n \<le> 21\<close>, a decimal point inside the digits when \<open>0 < n \<le> 21\<close>, a leading
  \<open>0.\<close> when \<open>-6 < n \<le> 0\<close>, exponent notation otherwise.
\<close>

definition positiveToString :: "nat \<Rightarrow> int \<Rightarrow> string" where
  "positiveToString s n =
     (let ds = digitsOf s; k = int (length ds)
      in if k \<le> n \<and> n \<le> 21 then ds @ replicate (nat (n - k)) CHR ''0''
         else if 0 < n \<and> n \<le> 21 then take (nat n) ds @ ''.'' @ drop (nat n) ds
         else if - 6 < n \<and> n \<le> 0 then ''0.'' @ replicate (nat (- n)) CHR ''0'' @ ds
         else
           (let e = n - 1;
                exponent = (if e < 0 then ''-'' else ''+'') @ digitsOf (nat \<bar>e\<bar>)
            in if k = 1 then ds @ ''e'' @ exponent
               else take 1 ds @ ''.'' @ drop 1 ds @ ''e'' @ exponent))"

definition numberToString :: "js_number \<Rightarrow> string" where
  "numberToString x =
     (case x of
        NaN \<Rightarrow> ''NaN''
      | Infinity negative \<Rightarrow> (if negative then ''-Infinity'' else ''Infinity'')
      | Zero \<Rightarrow> ''0''
      | Finite negative s n \<Rightarrow>
          (if negative then ''-'' @ positiveToString s n else positiveToString s n))"


section \<open>The converter (utils/ganttConverter)\<close>

subsection \<open>Formatting helpers\<close>

definition formatDuration :: "Duration \<Rightarrow> string" where
  "formatDuration duration = numberToString (dur_value duration) @ dur_unit duration"

text \<open>\<open>/^\d+[dwmh]$/.test(value)\<close>: the digits are consumed greedily; what is left
  must be exactly one unit letter.\<close>

definition isDurationString :: "string \<Rightarrow> bool" where
  "isDurationString v =
     (takeWhile isDigit v \<noteq> [] \<and>
      (case dropWhile isDigit v of [u] \<Rightarrow> u \<in> set ''dwmh'' | _ \<Rightarrow> False))"

text \<open>\<open>/^\d{4}-\d{2}-\d{2}$/.test(value)\<close>, the inline test of \<open>validateTask\<close>: each piece
  of the pattern consumes a prefix of the input or fails.\<close>

fun matchDigits :: "nat \<Rightarrow> string \<Rightarrow> string option" where
  "matchDigits 0 s = Some s"
| "matchDigits (Suc n) [] = None"
| "matchDigits (Suc n) (c # cs) = (if isDigit c then matchDigits n cs else None)"

fun matchChar :: "char \<Rightarrow> string \<Rightarrow> string option" where
  "matchChar x [] = None"
| "matchChar x (c # cs) = (if c = x then Some cs else None)"

definition isDateString :: "string \<Rightarrow> bool" where
  "isDateString v =
     (Option.bind (Option.bind (Option.bind (Option.bind (matchDigits 4 v)
        (matchChar CHR ''-'')) (matchDigits 2)) (matchChar CHR ''-'')) (matchDigits 2)
      = Some [])"

definition formatTaskStatus :: "string list option \<Rightarrow> string" where
  "formatTaskStatus status =
     (case status of
        None \<Rightarrow> []
      | Some st \<Rightarrow> if length st = 0 then [] else join '', '' st)"

subsection \<open>Emission\<close>

definition convertTask :: "GanttTask \<Rightarrow> string" where
  "convertTask task =
     (let parts = [task_name task];
          statusStr = formatTaskStatus (task_status task);
          parts = (if statusStr \<noteq> [] then parts @ [statusStr] else parts);
          parts = parts @ [task_id task];
          parts = (if truthy (task_after task)
                   then parts @ [''after '' @ (case task_after task of Some a \<Rightarrow> a | None \<Rightarrow> [])]
                   else parts @ [task_start task]);
          parts = (case task_duration task of
                     DurationObject d \<Rightarrow> parts @ [formatDuration d]
                   | DurationString s \<Rightarrow>
                       if isDurationString s then parts @ [s] else parts @ [s])
      in ''    '' @ join '' : '' parts)"

definition convertSection :: "GanttSection \<Rightarrow> string list" where
  "convertSection section =
     foldl (\<lambda>lines task. lines @ [convertTask task])
       [''    section '' @ section_name section] (section_tasks section)"

definition convertConfig :: "GanttConfig \<Rightarrow> string list" where
  "convertConfig config =
     (let lines = [];
          lines = (case config_title config of
                     Some t \<Rightarrow> if t \<noteq> [] then lines @ [''    title '' @ t] else lines
                   | None \<Rightarrow> lines);
          lines = (case config_dateFormat config of
                     Some f \<Rightarrow> if f \<noteq> [] then lines @ [''    dateFormat '' @ f] else lines
                   | None \<Rightarrow> lines);
          lines = (case config_axisFormat config of
                     Some f \<Rightarrow> if f \<noteq> [] then lines @ [''    axisFormat '' @ f] else lines
                   | None \<Rightarrow> lines);
          lines = (case config_tickInterval config of
                     Some i \<Rightarrow> if i \<noteq> [] then lines @ [''    tickInterval '' @ i] else lines
                   | None \<Rightarrow> lines);
          lines = (case config_excludes config of
                     Some ex \<Rightarrow>
                       if length ex > 0 then lines @ [''    excludes '' @ join '', '' ex]
                       else lines
                   | None \<Rightarrow> lines)
      in lines)"

subsection \<open>Validation\<close>

text \<open>The checks run in the order of the source. \<open>!task.duration\<close> holds for the empty
  string only, a \<open>Duration\<close> object being truthy; the two \<open>typeof\<close> tests that follow are
  the two cases of the union.\<close>

definition validateTask :: "GanttTask \<Rightarrow> string \<Rightarrow> string option" where
  \<open>validateTask task sectionName =
     (if task_id task = [] \<or> trim (task_id task) = [] then
        Some (''Task in section "'' @ sectionName @ ''" is missing an ID'')
      else if task_name task = [] \<or> trim (task_name task) = [] then
        Some (''Task "'' @ task_id task @ ''" in section "'' @ sectionName @
              ''" is missing a name'')
      else if \<not> truthy (task_after task) \<and>
              (task_start task = [] \<or> trim (task_start task) = []) then
        Some (''Task "'' @ task_id task @ ''" in section "'' @ sectionName @
              ''" is missing a start date or dependency'')
      else if (case task_duration task of
                 DurationString s \<Rightarrow> s = []
               | DurationObject d \<Rightarrow> False) then
        Some (''Task "'' @ task_id task @ ''" in section "'' @ sectionName @
              ''" is missing a duration'')
      else
        (case task_duration task of
           DurationString s \<Rightarrow>
             if \<not> isDurationString s \<and> \<not> isDateString s then
               Some (''Task "'' @ task_id task @ ''" has invalid duration format: "'' @ s @
                     ''"'')
             else None
         | DurationObject d \<Rightarrow>
             (let isMilestone =
                    (case task_status task of
                       None \<Rightarrow> False
                     | Some st \<Rightarrow> ''milestone'' \<in> set st)
              in if lessThanZero (dur_value d) \<or> (\<not> isMilestone \<and> dur_value d = Zero) then
                   Some (''Task "'' @ task_id task @ ''" has invalid duration value: '' @
                         numberToString (dur_value d))
                 else if dur_unit d \<notin> set [''d'', ''w'', ''h'', ''m''] then
                   Some (''Task "'' @ task_id task @ ''" has invalid duration unit: '' @
                         dur_unit d)
                 else None)))\<close>

text \<open>The \<open>for\<close> loop of \<open>validateSection\<close>: the first truthy task error is returned.\<close>

fun validateTasks :: "GanttTask list \<Rightarrow> string \<Rightarrow> string option" where
  "validateTasks [] sectionName = None"
| "validateTasks (task # rest) sectionName =
     (let taskError = validateTask task sectionName
      in if truthy taskError then taskError else validateTasks rest sectionName)"

definition validateSection :: "GanttSection \<Rightarrow> string option" where
  \<open>validateSection section =
     (if section_name section = [] \<or> trim (section_name section) = [] then
        Some ''Section is missing a name''
      else if length (section_tasks section) = 0 then
        Some (''Section "'' @ section_name section @ ''" has no tasks'')
      else validateTasks (section_tasks section) (section_name section))\<close>

text \<open>The inner loop of the first pass of \<open>validateGanttData\<close> over one section's tasks,
  threading the set \<open>taskIds\<close>: \<open>Inl\<close> is the value returned by the early \<open>return\<close>,
  \<open>Inr\<close> the set after the loop.\<close>

fun addTaskIds :: "string set \<Rightarrow> GanttTask list \<Rightarrow> string option + string set" where
  \<open>addTaskIds taskIds [] = Inr taskIds\<close>
| \<open>addTaskIds taskIds (task # rest) =
     (if task_id task \<in> taskIds then
        Inl (Some (''Duplicate task ID found: "'' @ task_id task @ ''"''))
      else addTaskIds (insert (task_id task) taskIds) rest)\<close>

text \<open>The first pass over the sections: each section is validated, then its task ids are
  added to \<open>taskIds\<close>.\<close>

fun checkSections :: "string set \<Rightarrow> GanttSection list \<Rightarrow> string option + string set" where
  "checkSections taskIds [] = Inr taskIds"
| "checkSections taskIds (section # rest) =
     (let sectionError = validateSection section
      in if truthy sectionError then Inl sectionError
         else (case addTaskIds taskIds (section_tasks section) of
                 Inl err \<Rightarrow> Inl err
               | Inr taskIds' \<Rightarrow> checkSections taskIds' rest))"

text \<open>The second pass: every \<open>after\<close> must name a collected id.\<close>

fun checkTaskDependencies :: "string set \<Rightarrow> GanttTask list \<Rightarrow> string option" where
  \<open>checkTaskDependencies taskIds [] = None\<close>
| \<open>checkTaskDependencies taskIds (task # rest) =
     (case task_after task of
        Some a \<Rightarrow>
          if a \<noteq> [] \<and> a \<notin> taskIds then
            Some (''Task "'' @ task_id task @ ''" depends on non-existent task: "'' @ a @ ''"'')
          else checkTaskDependencies taskIds rest
      | None \<Rightarrow> checkTaskDependencies taskIds rest)\<close>

fun checkDependencies :: "string set \<Rightarrow> GanttSection list \<Rightarrow> string option" where
  "checkDependencies taskIds [] = None"
| "checkDependencies taskIds (section # rest) =
     (case checkTaskDependencies taskIds (section_tasks section) of
        Some err \<Rightarrow> Some err
      | None \<Rightarrow> checkDependencies taskIds rest)"

text \<open>The argument is nullable: the function tests \<open>!data\<close> first.\<close>

definition validateGanttData :: "GanttData option \<Rightarrow> string option" where
  "validateGanttData data =
     (case data of
        None \<Rightarrow> Some ''Gantt data is required''
      | Some d \<Rightarrow>
          if length (data_sections d) = 0 then
            Some ''Gantt data must have at least one section''
          else (case checkSections {} (data_sections d) of
                  Inl err \<Rightarrow> err
                | Inr taskIds \<Rightarrow> checkDependencies taskIds (data_sections d)))"

subsection \<open>Conversion\<close>

text \<open>Past the validation, \<open>data.config\<close> dereferences \<open>data\<close>: on \<open>null\<close> that throws.\<close>

definition convertToMermaidSyntax :: "GanttData option \<Rightarrow> js_exception + ConversionResult" where
  "convertToMermaidSyntax data =
     (let validationError = validateGanttData data
      in if truthy validationError then
           Inr \<lparr>result_success = False, result_syntax = None, result_error = validationError\<rparr>
         else
           (case data of
              None \<Rightarrow> Inl TypeError
            | Some d \<Rightarrow>
                (let lines = [''gantt''];
                     lines = (case data_config d of
                                Some config \<Rightarrow> lines @ convertConfig config
                              | None \<Rightarrow> lines);
                     lines = foldl (\<lambda>lines section. lines @ convertSection section)
                               lines (data_sections d)
                 in Inr \<lparr>result_success = True,
                         result_syntax = Some (join [CHR 0x0A] lines),
                         result_error = None\<rparr>)))"

subsection \<open>Task constructors\<close>

text \<open>The default \<open>durationUnit = "d"\<close> is passed explicitly; an omitted \<open>status\<close> is
  \<open>None\<close>. \<open>createTask\<close> leaves \<open>after\<close> undefined.\<close>

definition createTask ::
  "string \<Rightarrow> string \<Rightarrow> string \<Rightarrow> js_number \<Rightarrow> string \<Rightarrow> string list option \<Rightarrow> GanttTask" where
  "createTask ident name start durationValue durationUnit status =
     \<lparr>task_id = ident, task_name = name, task_start = start,
      task_duration = DurationObject \<lparr>dur_value = durationValue, dur_unit = durationUnit\<rparr>,
      task_status = status, task_after = None\<rparr>"

definition createDependentTask ::
  "string \<Rightarrow> string \<Rightarrow> string \<Rightarrow> js_number \<Rightarrow> string \<Rightarrow> string list option \<Rightarrow> GanttTask" where
  "createDependentTask ident name afterTaskId durationValue durationUnit status =
     \<lparr>task_id = ident, task_name = name, task_start = [],
      task_duration = DurationObject \<lparr>dur_value = durationValue, dur_unit = durationUnit\<rparr>,
      task_status = status, task_after = Some afterTaskId\<rparr>"

definition createMilestone :: "string \<Rightarrow> string \<Rightarrow> string \<Rightarrow> GanttTask" where
  "createMilestone ident name afterTaskId =
     \<lparr>task_id = ident, task_name = name, task_start = [],
      task_duration = DurationObject \<lparr>dur_value = Zero, dur_unit = ''d''\<rparr>,
      task_status = Some [''milestone''], task_after = Some afterTaskId\<rparr>"

subsection \<open>Notions used in the statements\<close>

text \<open>The tasks of a list of sections in scan order: section by section, each section's
  tasks in their order.\<close>

abbreviation allTasks :: "GanttSection list \<Rightarrow> GanttTask list" where
  "allTasks sections \<equiv> concat (map section_tasks sections)"

text \<open>The equations that evaluate the validator and the constructors on a concrete
  schedule.\<close>

lemmas task_constructors = createTask_def createDependentTask_def createMilestone_def

lemmas validate_eval =
  validateGanttData_def validateSection_def validateTask_def task_constructors
  trim_def isWhiteSpace_def truthy_def


section \<open>Basic facts\<close>

lemma trim_Nil [simp]: "trim [] = []"
  by (simp add: trim_def)

text \<open>\<open>s.trim() === ""\<close> holds exactly for the strings made of white space only.\<close>

lemma trim_eq_Nil_iff: "trim s = [] \<longleftrightarrow> (\<forall>c \<in> set s. isWhiteSpace c)"
proof -
  let ?rest = "dropWhile isWhiteSpace s"
  have "(\<forall>x \<in> set ?rest. isWhiteSpace x) \<longleftrightarrow> ?rest = []"
  proof
    assume all: "\<forall>x \<in> set ?rest. isWhiteSpace x"
    show "?rest = []"
    proof (rule ccontr)
      assume ne: "?rest \<noteq> []"
      then have "\<not> isWhiteSpace (hd ?rest)" by (rule hd_dropWhile)
      moreover from ne have "hd ?rest \<in> set ?rest" by (rule hd_in_set)
      ultimately show False using all by blast
    qed
  next
    assume e: "?rest = []"
    show "\<forall>x \<in> set ?rest. isWhiteSpace x" unfolding e by simp
  qed
  then show ?thesis
    by (simp add: trim_def)
qed

lemma trim_nonempty: "trim s \<noteq> [] \<Longrightarrow> s \<noteq> []"
  by auto

lemma join_eq_Nil_iff: "sep \<noteq> [] \<Longrightarrow> join sep xs = [] \<longleftrightarrow> xs = [] \<or> xs = [[]]"
  by (induction sep xs rule: join.induct) auto

text \<open>Pushing onto an array in a loop appends the pushed elements in order.\<close>

lemma foldl_push: "foldl (\<lambda>lines x. lines @ [f x]) acc xs = acc @ map f xs"
  by (induction xs arbitrary: acc) auto

lemma foldl_push_all: "foldl (\<lambda>lines x. lines @ f x) acc xs = acc @ concat (map f xs)"
  by (induction xs arbitrary: acc) auto


text \<open>Numbers as a template literal prints them: integers, fractions, and exponent
  notation from \<open>1e21\<close> up and below \<open>1e-6\<close>.\<close>

lemma replicate_numeral: "replicate (numeral k) x = x # replicate (pred_numeral k) x"
  by (simp add: numeral_eq_Suc)

lemmas number_eval = numberToString_def positiveToString_def digitsOf.simps replicate_numeral

lemma numberToString_examples:
  "numberToString (Finite False 5 1) = ''5''"
  "numberToString (Finite True 5 1) = ''-5''"
  "numberToString (Finite False 12 3) = ''120''"
  "numberToString (Finite False 15 1) = ''1.5''"
  "numberToString (Finite False 1 (- 2)) = ''0.001''"
  "numberToString (Finite False 1 (- 6)) = ''1e-7''"
  "numberToString (Finite False 15 (- 6)) = ''1.5e-7''"
  "numberToString (Finite False 1 21) = ''100000000000000000000''"
  "numberToString (Finite False 1 22) = ''1e+21''"
  "numberToString (Finite False 9007199254740992 16) = ''9007199254740992''"
  "numberToString (Finite False 12345 22) = ''1.2345e+21''"
  "numberToString Zero = ''0''"
  "numberToString NaN = ''NaN''"
  "numberToString (Infinity True) = ''-Infinity''"
  by (simp_all add: number_eval)


section \<open>The regular expressions\<close>

text \<open>The two tests accept exactly the strings of the shapes the patterns describe.\<close>

lemma unit_not_digit: "u \<in> set ''dwmh'' \<Longrightarrow> \<not> isDigit u"
  by (auto simp: isDigit_def)

lemma isDurationString_iff:
  "isDurationString v \<longleftrightarrow>
     (\<exists>ds u. v = ds @ [u] \<and> ds \<noteq> [] \<and> (\<forall>c \<in> set ds. isDigit c) \<and> u \<in> {CHR ''d'', CHR ''w'', CHR ''h'', CHR ''m''})"
  (is "?L \<longleftrightarrow> ?R")
proof
  assume ?L
  then obtain u where tw: "takeWhile isDigit v \<noteq> []" and dw: "dropWhile isDigit v = [u]"
    and u: "u \<in> set ''dwmh''"
    by (auto simp: isDurationString_def split: list.splits)
  have "v = takeWhile isDigit v @ [u]"
    using takeWhile_dropWhile_id [of isDigit v] dw by simp
  moreover have "\<forall>c \<in> set (takeWhile isDigit v). isDigit c"
    by (auto dest: set_takeWhileD)
  ultimately show ?R using tw u by (intro exI[of _ "takeWhile isDigit v"] exI[of _ u]) auto
next
  assume ?R
  then obtain ds u where v: "v = ds @ [u]" and ne: "ds \<noteq> []"
    and ds: "\<forall>c \<in> set ds. isDigit c" and u: "u \<in> set ''dwmh''"
    by auto
  from u have nd: "\<not> isDigit u" by (rule unit_not_digit)
  from ds nd have "takeWhile isDigit v = ds" "dropWhile isDigit v = [u]"
    by (simp_all add: v)
  with ne u show ?L by (simp add: isDurationString_def)
qed

lemma matchDigits_Some_iff:
  "matchDigits n s = Some r \<longleftrightarrow> (\<exists>ds. s = ds @ r \<and> length ds = n \<and> (\<forall>c \<in> set ds. isDigit c))"
proof (induction n s rule: matchDigits.induct)
  case (1 s)
  then show ?case by auto
next
  case (2 n)
  then show ?case by auto
next
  case (3 n c cs)
  show ?case
  proof (cases "isDigit c")
    case True
    with 3 show ?thesis
      by (auto simp: length_Suc_conv Cons_eq_append_conv)
  next
    case False
    then show ?thesis 
      by (auto simp: length_Suc_conv Cons_eq_append_conv)
  qed
qed

lemma matchChar_Some_iff: "matchChar x s = Some r \<longleftrightarrow> s = x # r"
  by (cases s) auto

lemma isDateString_iff:
  "isDateString v \<longleftrightarrow>
     (\<exists>y m d. v = y @ ''-'' @ m @ ''-'' @ d \<and> length y = 4 \<and> length m = 2 \<and> length d = 2 \<and>
        (\<forall>c \<in> set (y @ m @ d). isDigit c))"
  unfolding isDateString_def bind_eq_Some_conv matchDigits_Some_iff matchChar_Some_iff
  by (auto; blast)


section \<open>Validation of a task\<close>

text \<open>Once the id and name checks have passed, \<open>validateTask\<close> is decided by the
  start check and the duration checks, in this order.\<close>

lemma validateTask_named:
  assumes "trim (task_id task) \<noteq> []" and "trim (task_name task) \<noteq> []"
  shows \<open>validateTask task sectionName =
     (if (task_after task = None \<or> task_after task = Some []) \<and> trim (task_start task) = [] then
        Some (''Task "'' @ task_id task @ ''" in section "'' @ sectionName @
              ''" is missing a start date or dependency'')
      else
        (case task_duration task of
           DurationString s \<Rightarrow>
             if s = [] then
               Some (''Task "'' @ task_id task @ ''" in section "'' @ sectionName @
                     ''" is missing a duration'')
             else if \<not> isDurationString s \<and> \<not> isDateString s then
               Some (''Task "'' @ task_id task @ ''" has invalid duration format: "'' @ s @
                     ''"'')
             else None
         | DurationObject d \<Rightarrow>
             if lessThanZero (dur_value d) \<or>
                (\<not> (\<exists>st. task_status task = Some st \<and> ''milestone'' \<in> set st) \<and>
                 dur_value d = Zero) then
               Some (''Task "'' @ task_id task @ ''" has invalid duration value: '' @
                     numberToString (dur_value d))
             else if dur_unit d \<notin> {''d'', ''w'', ''h'', ''m''} then
               Some (''Task "'' @ task_id task @ ''" has invalid duration unit: '' @
                     dur_unit d)
             else None))\<close>
proof -
  from assms have ne: "task_id task \<noteq> []" "task_name task \<noteq> []" by auto
  show ?thesis
  proof (cases "task_duration task")
    case (DurationString s)
    with assms ne show ?thesis
      by (cases "task_after task") (auto simp: validateTask_def truthy_def)
  next
    case (DurationObject d)
    with assms ne show ?thesis
      by (cases "task_after task"; cases "task_status task")
         (auto simp: validateTask_def truthy_def)
  qed
qed

text \<open>
  Claim C2 (amended). For a task whose id and name checks have passed, \<open>validateTask\<close>
  returns the "missing a start date or dependency" error exactly when \<open>after\<close> is absent
  or the empty string and \<open>start\<close> is empty or made of white space only. A task whose
  \<open>after\<close> is a non-empty string passes this check whatever its \<open>start\<close> is, empty or
  not: the check asks for at least one of the two, not for exactly one.
\<close>

theorem validateTask_start_or_after:
  assumes "trim (task_id task) \<noteq> []" and "trim (task_name task) \<noteq> []"
  shows \<open>(validateTask task sectionName =
            Some (''Task "'' @ task_id task @ ''" in section "'' @ sectionName @
                  ''" is missing a start date or dependency'')
          \<longleftrightarrow> (task_after task = None \<or> task_after task = Some []) \<and>
               (\<forall>c \<in> set (task_start task). isWhiteSpace c))
       \<and> ((\<exists>a. task_after task = Some a \<and> a \<noteq> [])
            \<longrightarrow> validateTask task sectionName \<noteq>
                 Some (''Task "'' @ task_id task @ ''" in section "'' @ sectionName @
                       ''" is missing a start date or dependency''))\<close>
  unfolding validateTask_named [OF assms] trim_eq_Nil_iff [symmetric]
  by (auto split: DurationField.splits)

theorem validateTask_start_or_after_witness:
  \<open>trim ''task1'' \<noteq> [] \<and> trim ''Task'' \<noteq> [] \<and>
   validateTask (createTask ''task1'' ''Task'' [] (Finite False 5 1) ''d'' None) ''Test'' =
     Some ''Task "task1" in section "Test" is missing a start date or dependency'' \<and>
   validateTask (createDependentTask ''task1'' ''Task'' ''task0'' (Finite False 5 1) ''d'' None) ''Test'' \<noteq>
     Some ''Task "task1" in section "Test" is missing a start date or dependency''\<close>
proof -
  let ?t = "createTask ''task1'' ''Task'' [] (Finite False 5 1) ''d'' None"
  let ?u = "createDependentTask ''task1'' ''Task'' ''task0'' (Finite False 5 1) ''d'' None"
  have h: "trim ''task1'' \<noteq> []" "trim ''Task'' \<noteq> []"
    by (simp_all add: trim_def isWhiteSpace_def)
  then have ht: "trim (task_id ?t) \<noteq> []" "trim (task_name ?t) \<noteq> []"
    and hu: "trim (task_id ?u) \<noteq> []" "trim (task_name ?u) \<noteq> []"
    by (simp_all add: task_constructors)
  from validateTask_start_or_after [OF ht, of "''Test''"]
    validateTask_start_or_after [OF hu, of "''Test''"] h
  show ?thesis
    by (simp add: task_constructors)
qed

text \<open>
  The claim as stated fails twice: a task with both \<open>after\<close> and a non-empty \<open>start\<close> is
  valid, and a task without \<open>after\<close> whose \<open>start\<close> is two spaces (not empty) gets the
  error.
\<close>

theorem validateTask_start_or_after_counterexample:
  \<open>validateTask
      ((createDependentTask ''task1'' ''Task'' ''task0'' (Finite False 5 1) ''d'' None)\<lparr>task_start := ''2024-01-01''\<rparr>)
      ''Test'' = None \<and>
   validateTask (createTask ''task1'' ''Task'' ''  '' (Finite False 5 1) ''d'' None) ''Test'' =
     Some ''Task "task1" in section "Test" is missing a start date or dependency''\<close>
  by (simp add: task_constructors validateTask_def trim_def isWhiteSpace_def truthy_def)

text \<open>
  Claim C3 (amended). For a task whose duration is a \<open>Duration\<close> object and whose id,
  name and start checks have passed, \<open>validateTask\<close> returns the "invalid duration value"
  error exactly when the value is negative, or is zero while the status list does not
  contain \<open>milestone\<close>. A task with value 0 and \<open>milestone\<close> in its status list passes
  the value check. Once the value check has passed, a unit outside \<open>d\<close>, \<open>w\<close>, \<open>h\<close>,
  \<open>m\<close> gives the "invalid duration unit" error, and a unit among them makes the task
  valid.
\<close>

theorem validateTask_duration_object:
  assumes "trim (task_id task) \<noteq> []" and "trim (task_name task) \<noteq> []"
    and "truthy (task_after task) \<or> trim (task_start task) \<noteq> []"
    and "task_duration task = DurationObject d"
  shows \<open>(validateTask task sectionName =
            Some (''Task "'' @ task_id task @ ''" has invalid duration value: '' @
                  numberToString (dur_value d))
          \<longleftrightarrow> lessThanZero (dur_value d) \<or>
               (dur_value d = Zero \<and>
                \<not> (\<exists>st. task_status task = Some st \<and> ''milestone'' \<in> set st)))
       \<and> (dur_value d = Zero \<and> (\<exists>st. task_status task = Some st \<and> ''milestone'' \<in> set st)
            \<longrightarrow> validateTask task sectionName \<noteq>
                 Some (''Task "'' @ task_id task @ ''" has invalid duration value: '' @
                       numberToString (dur_value d)))
       \<and> (\<not> (lessThanZero (dur_value d) \<or>
                (dur_value d = Zero \<and>
                 \<not> (\<exists>st. task_status task = Some st \<and> ''milestone'' \<in> set st)))
            \<longrightarrow> validateTask task sectionName =
                 (if dur_unit d \<in> {''d'', ''w'', ''h'', ''m''} then None
                  else Some (''Task "'' @ task_id task @ ''" has invalid duration unit: '' @
                             dur_unit d)))\<close>
proof -
  have "\<not> ((task_after task = None \<or> task_after task = Some []) \<and> trim (task_start task) = [])"
    using assms(3) by (auto simp: truthy_def split: option.splits)
  then show ?thesis
    unfolding validateTask_named [OF assms(1,2)] assms(4)
    by auto
qed

text \<open>The milestone of the example application, a regular task of zero duration, and a
  task with an unknown unit.\<close>

theorem validateTask_duration_object_witness:
  \<open>trim ''launch'' \<noteq> [] \<and> trim ''Launch'' \<noteq> [] \<and>
   truthy (task_after (createMilestone ''launch'' ''Launch'' ''deployment'')) \<and>
   task_duration (createMilestone ''launch'' ''Launch'' ''deployment'') =
     DurationObject \<lparr>dur_value = Zero, dur_unit = ''d''\<rparr> \<and>
   validateTask (createMilestone ''launch'' ''Launch'' ''deployment'') ''Testing'' = None \<and>
   validateTask (createTask ''task1'' ''Regular Task'' ''2024-01-01'' Zero ''d'' None) ''Test'' =
     Some ''Task "task1" has invalid duration value: 0'' \<and>
   validateTask (createTask ''task1'' ''Regular Task'' ''2024-01-01'' (Finite False 5 1) ''y'' None) ''Test'' =
     Some ''Task "task1" has invalid duration unit: y''\<close>
proof -
  let ?t = "createMilestone ''launch'' ''Launch'' ''deployment''"
  let ?u = "\<lambda>v u. createTask ''task1'' ''Regular Task'' ''2024-01-01'' v u None"
  have h1: "trim (task_id ?t) \<noteq> []" and h2: "trim (task_name ?t) \<noteq> []"
    by (simp_all add: task_constructors trim_def isWhiteSpace_def)
  have h3: "truthy (task_after ?t) \<or> trim (task_start ?t) \<noteq> []"
    by (simp add: task_constructors truthy_def)
  have h4: "task_duration ?t = DurationObject \<lparr>dur_value = Zero, dur_unit = ''d''\<rparr>"
    by (simp add: task_constructors)
  have k1: "trim (task_id (?u v u)) \<noteq> []" and k2: "trim (task_name (?u v u)) \<noteq> []"
    and k3: "truthy (task_after (?u v u)) \<or> trim (task_start (?u v u)) \<noteq> []"
    and k4: "task_duration (?u v u) = DurationObject \<lparr>dur_value = v, dur_unit = u\<rparr>" for v u
    by (simp_all add: task_constructors trim_def isWhiteSpace_def)
  from validateTask_duration_object [OF h1 h2 h3 h4, of "''Testing''"]
  have "validateTask ?t ''Testing'' = None"
    by (simp add: task_constructors)
  moreover from validateTask_duration_object [OF k1 k2 k3 k4, of Zero "''d''" "''Test''"]
  have "validateTask (?u Zero ''d'') ''Test'' = Some ''Task \"task1\" has invalid duration value: 0''"
    by (simp add: task_constructors numberToString_def positiveToString_def digitsOf.simps)
  moreover from validateTask_duration_object [OF k1 k2 k3 k4, of "Finite False 5 1" "''y''" "''Test''"]
  have "validateTask (?u (Finite False 5 1) ''y'') ''Test'' = Some ''Task \"task1\" has invalid duration unit: y''"
    by (simp add: task_constructors)
  ultimately show ?thesis
    using h1 h2 h3 h4 by (simp add: task_constructors truthy_def)
qed

text \<open>The claim as stated fails where an earlier check fails first: a task with an empty
  id and the value \<open>-5\<close> gets the "missing an ID" error, and a task with the value \<open>-5\<close>
  and the unit \<open>y\<close> gets the value error, not the unit error.\<close>

theorem validateTask_duration_object_counterexample:
  \<open>validateTask (createTask [] ''Task'' ''2024-01-01'' (Finite True 5 1) ''d'' None) ''Test'' =
     Some ''Task in section "Test" is missing an ID'' \<and>
   validateTask (createTask ''task1'' ''Task'' ''2024-01-01'' (Finite True 5 1) ''y'' None)
      ''Test'' =
     Some ''Task "task1" has invalid duration value: -5''\<close>
  by (simp add: validate_eval number_eval)

text \<open>
  Claim C4 (amended). For a task whose duration is a string and whose id, name and start
  checks have passed, \<open>validateTask\<close> accepts the string exactly when it is one or more
  digits followed by one of the letters \<open>d\<close>, \<open>w\<close>, \<open>h\<close>, \<open>m\<close> and nothing else, or four
  digits, a dash, two digits, a dash and two digits. Any other non-empty string gets the
  "invalid duration format" error; the empty string gets the "missing a duration" error.
\<close>

theorem validateTask_duration_string:
  assumes "trim (task_id task) \<noteq> []" and "trim (task_name task) \<noteq> []"
    and "truthy (task_after task) \<or> trim (task_start task) \<noteq> []"
    and "task_duration task = DurationString s"
  shows \<open>(validateTask task sectionName = None
          \<longleftrightarrow> (\<exists>ds u. s = ds @ [u] \<and> ds \<noteq> [] \<and> (\<forall>c \<in> set ds. isDigit c) \<and>
                      u \<in> {CHR ''d'', CHR ''w'', CHR ''h'', CHR ''m''}) \<or>
               (\<exists>y m d. s = y @ ''-'' @ m @ ''-'' @ d \<and>
                        length y = 4 \<and> length m = 2 \<and> length d = 2 \<and>
                        (\<forall>c \<in> set (y @ m @ d). isDigit c)))
       \<and> (validateTask task sectionName =
            Some (''Task "'' @ task_id task @ ''" has invalid duration format: "'' @ s @ ''"'')
          \<longleftrightarrow> s \<noteq> [] \<and> validateTask task sectionName \<noteq> None)
       \<and> (validateTask task sectionName =
            Some (''Task "'' @ task_id task @ ''" in section "'' @ sectionName @
                  ''" is missing a duration'')
          \<longleftrightarrow> s = [])\<close>
proof -
  have *: "\<not> ((task_after task = None \<or> task_after task = Some []) \<and> trim (task_start task) = [])"
    using assms(3) by (auto simp: truthy_def split: option.splits)
  have e: "\<not> isDurationString []" "\<not> isDateString []"
    by (simp_all add: isDurationString_def isDateString_def eval_nat_numeral)
  show ?thesis
    unfolding validateTask_named [OF assms(1,2)] assms(4)
      isDurationString_iff [symmetric] isDateString_iff [symmetric]
    using * e by auto
qed

theorem validateTask_duration_string_witness:
  \<open>trim ''task1'' \<noteq> [] \<and> trim ''Task'' \<noteq> [] \<and> trim ''2024-01-01'' \<noteq> [] \<and>
   validateTask \<lparr>task_id = ''task1'', task_name = ''Task'', task_start = ''2024-01-01'',
                 task_duration = DurationString ''2024-01-15'', task_status = None,
                 task_after = None\<rparr> ''Test'' = None \<and>
   validateTask \<lparr>task_id = ''task1'', task_name = ''Task'', task_start = ''2024-01-01'',
                 task_duration = DurationString ''invalid'', task_status = None,
                 task_after = None\<rparr> ''Test'' =
     Some ''Task "task1" has invalid duration format: "invalid"''\<close>
proof -
  let ?t = "\<lambda>s. \<lparr>task_id = ''task1'', task_name = ''Task'', task_start = ''2024-01-01'',
                 task_duration = DurationString s, task_status = None, task_after = None\<rparr>"
  have h: "trim ''task1'' \<noteq> []" "trim ''Task'' \<noteq> []" "trim ''2024-01-01'' \<noteq> []"
    by (simp_all add: trim_def isWhiteSpace_def)
  then have h1: "trim (task_id (?t s)) \<noteq> []" and h2: "trim (task_name (?t s)) \<noteq> []"
    and h3: "truthy (task_after (?t s)) \<or> trim (task_start (?t s)) \<noteq> []"
    and h4: "task_duration (?t s) = DurationString s" for s
    by simp_all
  have date: "\<exists>y m d. ''2024-01-15'' = y @ ''-'' @ m @ ''-'' @ d \<and>
      length y = 4 \<and> length m = 2 \<and> length d = 2 \<and> (\<forall>c \<in> set (y @ m @ d). isDigit c)"
    by (rule exI [of _ "''2024''"], rule exI [of _ "''01''"], rule exI [of _ "''15''"])
       (simp add: isDigit_def)
  have bad: "validateTask (?t ''invalid'') ''Test'' \<noteq> None"
    by (simp add: validateTask_def trim_def isWhiteSpace_def truthy_def isDurationString_def
        isDateString_def isDigit_def eval_nat_numeral)
  from validateTask_duration_string [OF h1 h2 h3 h4, of "''2024-01-15''" "''Test''"]
    validateTask_duration_string [OF h1 h2 h3 h4, of "''invalid''" "''Test''"] date bad h
  show ?thesis
    by simp
qed

text \<open>The claim as stated fails on the empty string, which is rejected as a missing
  duration, not as a duration of invalid format.\<close>

theorem validateTask_duration_string_counterexample:
  \<open>validateTask \<lparr>task_id = ''task1'', task_name = ''Task'', task_start = ''2024-01-01'',
                 task_duration = DurationString [], task_status = None, task_after = None\<rparr>
      ''Test'' = Some ''Task "task1" in section "Test" is missing a duration''\<close>
  by (simp add: validateTask_def trim_def isWhiteSpace_def truthy_def)

text \<open>
  Claim C10 (amended). A string made of white space only is treated exactly as the empty
  string: as a task id, a task name, a start or a section name, the validator returns for
  it what it returns for the empty string. So as a task id it gives the "missing an ID"
  error; as a task name, once the id check has passed, the "missing a name" error; as a
  start, once the id and name checks have passed and with \<open>after\<close> absent or empty, the
  "missing a start date or dependency" error; as a section name the "Section is missing
  a name" error.
\<close>

theorem whitespace_only_is_missing:
  assumes "\<forall>c \<in> set w. isWhiteSpace c"
  shows \<open>validateTask (task\<lparr>task_id := w\<rparr>) sectionName =
            Some (''Task in section "'' @ sectionName @ ''" is missing an ID'')
       \<and> (trim (task_id task) \<noteq> [] \<longrightarrow>
            validateTask (task\<lparr>task_name := w\<rparr>) sectionName =
              Some (''Task "'' @ task_id task @ ''" in section "'' @ sectionName @
                    ''" is missing a name''))
       \<and> (trim (task_id task) \<noteq> [] \<and> trim (task_name task) \<noteq> [] \<and>
          (task_after task = None \<or> task_after task = Some []) \<longrightarrow>
            validateTask (task\<lparr>task_start := w\<rparr>) sectionName =
              Some (''Task "'' @ task_id task @ ''" in section "'' @ sectionName @
                    ''" is missing a start date or dependency''))
       \<and> validateSection (section\<lparr>section_name := w\<rparr>) = Some ''Section is missing a name''
       \<and> validateTask (task\<lparr>task_id := w\<rparr>) sectionName =
          validateTask (task\<lparr>task_id := []\<rparr>) sectionName
       \<and> validateTask (task\<lparr>task_name := w\<rparr>) sectionName =
          validateTask (task\<lparr>task_name := []\<rparr>) sectionName
       \<and> validateTask (task\<lparr>task_start := w\<rparr>) sectionName =
          validateTask (task\<lparr>task_start := []\<rparr>) sectionName
       \<and> validateSection (section\<lparr>section_name := w\<rparr>) =
          validateSection (section\<lparr>section_name := []\<rparr>)\<close>
proof -
  from assms have w: "trim w = []" by (simp add: trim_eq_Nil_iff)
  show ?thesis
    by (auto simp: validateTask_def validateSection_def w truthy_def
        split: option.splits DurationField.splits)
qed

theorem whitespace_only_is_missing_witness:
  \<open>isWhiteSpace CHR '' '' \<and> set ''  '' = {CHR '' ''} \<and> ''  '' \<noteq> [] \<and>
   validateTask (createTask ''  '' ''Task'' ''2024-01-01'' (Finite False 5 1) ''d'' None) ''Test'' =
     Some ''Task in section "Test" is missing an ID'' \<and>
   validateTask (createTask ''task1'' ''  '' ''2024-01-01'' (Finite False 5 1) ''d'' None) ''Test'' =
     Some ''Task "task1" in section "Test" is missing a name'' \<and>
   validateTask (createTask ''task1'' ''Task'' ''  '' (Finite False 5 1) ''d'' None) ''Test'' =
     Some ''Task "task1" in section "Test" is missing a start date or dependency'' \<and>
   validateSection \<lparr>section_name = ''  '',
       section_tasks = [createTask ''task1'' ''Task'' ''2024-01-01'' (Finite False 5 1) ''d'' None]\<rparr> =
     Some ''Section is missing a name''\<close>
proof -
  let ?t = "createTask ''task1'' ''Task'' ''2024-01-01'' (Finite False 5 1) ''d'' None"
  let ?s = "\<lparr>section_name = ''Development'', section_tasks = [?t]\<rparr>"
  have h: "\<forall>c \<in> set ''  ''. isWhiteSpace c"
    by (simp add: isWhiteSpace_def)
  have n: "trim (task_id ?t) \<noteq> []" "trim (task_name ?t) \<noteq> []" "task_after ?t = None"
    by (simp_all add: task_constructors trim_def isWhiteSpace_def)
  from whitespace_only_is_missing [OF h, of ?t "''Test''" ?s] n h
  show ?thesis
    by (simp add: task_constructors)
qed


text \<open>The claim as stated fails where the check is skipped or preceded by another: a
  start of two spaces is accepted when \<open>after\<close> is set, by \<open>validateTask\<close> and by
  \<open>validateGanttData\<close>, and a name of two spaces on a task with an empty id gets the
  "missing an ID" error.\<close>

theorem whitespace_only_is_missing_counterexample:
  \<open>validateTask
      ((createDependentTask ''task1'' ''Task'' ''task0'' (Finite False 5 1) ''d'' None)
         \<lparr>task_start := ''  ''\<rparr>) ''Test'' = None \<and>
   validateGanttData (Some \<lparr>data_config = None, data_sections =
     [\<lparr>section_name = ''Development'', section_tasks =
         [createTask ''task0'' ''First'' ''2024-01-01'' (Finite False 5 1) ''d'' None,
          (createDependentTask ''task1'' ''Task'' ''task0'' (Finite False 5 1) ''d'' None)
            \<lparr>task_start := ''  ''\<rparr>]\<rparr>]\<rparr>) = None \<and>
   validateTask (createTask [] ''  '' ''2024-01-01'' (Finite False 5 1) ''d'' None) ''Test'' =
     Some ''Task in section "Test" is missing an ID''\<close>
  by (simp add: validate_eval)


section \<open>Validation errors are never the empty string\<close>

text \<open>The callers test an error with \<open>if (error)\<close>: an empty message would be dropped.
  Every message starts with fixed text, so none is empty.\<close>

lemma validateTask_truthy: "validateTask task sectionName = Some e \<Longrightarrow> e \<noteq> []"
  by (auto simp: validateTask_def Let_def split: if_splits DurationField.splits)

lemma validateTasks_truthy: "validateTasks tasks sectionName = Some e \<Longrightarrow> e \<noteq> []"
  by (induction tasks) (auto simp: Let_def truthy_def split: if_splits option.splits)

lemma validateSection_truthy: "validateSection section = Some e \<Longrightarrow> e \<noteq> []"
  by (auto simp: validateSection_def split: if_splits dest: validateTasks_truthy)

lemma addTaskIds_truthy: "addTaskIds taskIds tasks = Inl err \<Longrightarrow> truthy err"
  by (induction tasks arbitrary: taskIds) (auto simp: truthy_def split: if_splits)

lemma checkSections_truthy: "checkSections taskIds sections = Inl err \<Longrightarrow> truthy err"
  by (induction sections arbitrary: taskIds)
     (auto simp: Let_def split: if_splits sum.splits dest: addTaskIds_truthy)

lemma checkTaskDependencies_truthy: "checkTaskDependencies taskIds tasks = Some e \<Longrightarrow> e \<noteq> []"
  by (induction tasks) (auto split: option.splits if_splits)

lemma checkDependencies_truthy: "checkDependencies taskIds sections = Some e \<Longrightarrow> e \<noteq> []"
  by (induction sections) (auto split: option.splits dest: checkTaskDependencies_truthy)

lemma validateGanttData_truthy: "validateGanttData data = Some e \<Longrightarrow> e \<noteq> []"
  by (auto simp: validateGanttData_def truthy_def
      split: option.splits if_splits sum.splits
      dest: checkSections_truthy checkDependencies_truthy)

lemma validateGanttData_null: "validateGanttData None = Some ''Gantt data is required''"
  by (simp add: validateGanttData_def)


section \<open>Emitted lines\<close>

lemma convertSection_eq:
  "convertSection section =
     (''    section '' @ section_name section) # map convertTask (section_tasks section)"
  by (simp add: convertSection_def foldl_push)

text \<open>The text emitted for a valid schedule.\<close>

lemma convertToMermaidSyntax_valid:
  assumes "validateGanttData (Some d) = None"
  shows "convertToMermaidSyntax (Some d) =
     Inr \<lparr>result_success = True,
          result_syntax = Some (join [CHR 0x0A]
            (''gantt'' #
             (case data_config d of None \<Rightarrow> [] | Some config \<Rightarrow> convertConfig config) @
             concat (map convertSection (data_sections d)))),
          result_error = None\<rparr>"
  using assms
  by (simp add: convertToMermaidSyntax_def truthy_def foldl_push_all split: option.splits)

text \<open>
  Claim C5. \<open>convertTask\<close> yields one line: four spaces, then the fields joined by
  \<open>" : "\<close> in this order: the task name; the status list joined by \<open>", "\<close> in its
  original order, with no field at all when the list is absent or empty (or would render
  as the empty string); the task id; \<open>after <taskId>\<close> when \<open>after\<close> is set (a non-empty
  string), the raw \<open>start\<close> otherwise; the duration, \<open>formatDuration\<close> of a \<open>Duration\<close>
  object or the raw string unchanged.
\<close>

theorem convertTask_fields:
  "convertTask task =
     ''    '' @ join '' : ''
       ([task_name task] @
        (case task_status task of
           None \<Rightarrow> []
         | Some st \<Rightarrow> if st = [] \<or> st = [[]] then [] else [join '', '' st]) @
        [task_id task,
         (case task_after task of
            None \<Rightarrow> task_start task
          | Some a \<Rightarrow> if a = [] then task_start task else ''after '' @ a),
         (case task_duration task of
            DurationObject d \<Rightarrow> formatDuration d
          | DurationString s \<Rightarrow> s)])"
  by (simp add: convertTask_def formatTaskStatus_def truthy_def formatDuration_def
      join_eq_Nil_iff Let_def split: option.splits DurationField.splits)

text \<open>The examples of the claim, and a dependent task with two status tags.\<close>

theorem convertTask_fields_witness:
  "convertTask (createTask ''task1'' ''Task One'' ''2024-01-01'' (Finite False 5 1) ''d'' None) =
     ''    Task One : task1 : 2024-01-01 : 5d'' \<and>
   convertTask (createTask ''task1'' ''Task One'' ''2024-01-01'' (Finite False 5 1) ''d'' (Some [''done''])) =
     ''    Task One : done : task1 : 2024-01-01 : 5d'' \<and>
   convertTask (createDependentTask ''task2'' ''Task Two'' ''task1'' (Finite False 3 1) ''d'' (Some [''crit'', ''active''])) =
     ''    Task Two : crit, active : task2 : after task1 : 3d''"
  using convertTask_fields [of "createTask ''task1'' ''Task One'' ''2024-01-01'' (Finite False 5 1) ''d'' None"]
    convertTask_fields [of "createTask ''task1'' ''Task One'' ''2024-01-01'' (Finite False 5 1) ''d'' (Some [''done''])"]
    convertTask_fields [of "createDependentTask ''task2'' ''Task Two'' ''task1'' (Finite False 3 1) ''d'' (Some [''crit'', ''active''])"]
  by (simp add: task_constructors formatDuration_def numberToString_def positiveToString_def digitsOf.simps)




section \<open>The conversion result\<close>

text \<open>
  Claim C7. When \<open>validateGanttData\<close> returns an error, \<open>convertToMermaidSyntax\<close> returns
  the failing result carrying exactly that message and no text; when it returns no error,
  the successful result carrying the emitted text and no message. So the result is
  successful exactly when validation passes, never carries both a text and a message, and
  the conversion never throws.
\<close>

theorem convertToMermaidSyntax_result:
  "(\<forall>e. validateGanttData data = Some e \<longrightarrow>
        convertToMermaidSyntax data =
          Inr \<lparr>result_success = False, result_syntax = None, result_error = Some e\<rparr>)
   \<and> (validateGanttData data = None \<longrightarrow>
        (\<exists>d. data = Some d \<and>
           convertToMermaidSyntax data =
             Inr \<lparr>result_success = True,
                  result_syntax = Some (join [CHR 0x0A]
                    (''gantt'' #
                     (case data_config d of None \<Rightarrow> [] | Some config \<Rightarrow> convertConfig config) @
                     concat (map convertSection (data_sections d)))),
                  result_error = None\<rparr>))
   \<and> (\<exists>r. convertToMermaidSyntax data = Inr r \<and>
            (result_success r \<longleftrightarrow> validateGanttData data = None) \<and>
            (\<not> result_success r \<longleftrightarrow> validateGanttData data \<noteq> None) \<and>
            \<not> (result_syntax r \<noteq> None \<and> result_error r \<noteq> None))"
proof (cases "validateGanttData data")
  case None
  then obtain d where d: "data = Some d"
    using validateGanttData_null by (cases data) auto
  with None show ?thesis
    by (simp add: convertToMermaidSyntax_valid)
next
  case (Some e)
  then have "truthy (validateGanttData data)"
    by (simp add: truthy_def validateGanttData_truthy)
  with Some show ?thesis
    by (simp add: convertToMermaidSyntax_def)
qed

theorem convertToMermaidSyntax_result_witness:
  \<open>validateGanttData (Some \<lparr>data_config = None, data_sections = []\<rparr>) =
     Some ''Gantt data must have at least one section'' \<and>
   convertToMermaidSyntax (Some \<lparr>data_config = None, data_sections = []\<rparr>) =
     Inr \<lparr>result_success = False, result_syntax = None,
          result_error = Some ''Gantt data must have at least one section''\<rparr> \<and>
   validateGanttData (Some \<lparr>data_config = None, data_sections =
       [\<lparr>section_name = ''Development'', section_tasks =
          [createTask ''task1'' ''Task One'' ''2024-01-01'' (Finite False 5 1) ''d'' None]\<rparr>]\<rparr>) = None \<and>
   convertToMermaidSyntax (Some \<lparr>data_config = None, data_sections =
       [\<lparr>section_name = ''Development'', section_tasks =
          [createTask ''task1'' ''Task One'' ''2024-01-01'' (Finite False 5 1) ''d'' None]\<rparr>]\<rparr>) =
     Inr \<lparr>result_success = True,
          result_syntax = Some (''gantt'' @ [CHR 0x0A] @ ''    section Development'' @ [CHR 0x0A] @
                                ''    Task One : task1 : 2024-01-01 : 5d''),
          result_error = None\<rparr>\<close>
proof -
  let ?bad = "Some \<lparr>data_config = None, data_sections = []\<rparr>"
  let ?good = "Some \<lparr>data_config = None, data_sections =
       [\<lparr>section_name = ''Development'', section_tasks =
          [createTask ''task1'' ''Task One'' ''2024-01-01'' (Finite False 5 1) ''d'' None]\<rparr>]\<rparr>"
  have b: "validateGanttData ?bad = Some ''Gantt data must have at least one section''"
    by (simp add: validateGanttData_def)
  have g: "validateGanttData ?good = None"
    by (simp add: validateGanttData_def validateSection_def validateTask_def task_constructors
        trim_def isWhiteSpace_def truthy_def)
  from convertToMermaidSyntax_result [of ?bad] convertToMermaidSyntax_result [of ?good] b g
  show ?thesis
    by (simp add: convertSection_eq task_constructors convertTask_def formatTaskStatus_def
        truthy_def formatDuration_def numberToString_def positiveToString_def digitsOf.simps)
qed


section \<open>The two passes of \<open>validateGanttData\<close>\<close>

text \<open>The first pass succeeds exactly when every section is structurally valid and no
  task id occurs twice; it then returns the set of all task ids.\<close>

lemma validateSection_falsy_iff: "\<not> truthy (validateSection section) \<longleftrightarrow> validateSection section = None"
  by (cases "validateSection section") (auto simp: truthy_def dest: validateSection_truthy)

lemma addTaskIds_Inr_iff:
  "addTaskIds taskIds tasks = Inr ids' \<longleftrightarrow>
     distinct (map task_id tasks) \<and> task_id ` set tasks \<inter> taskIds = {} \<and>
     ids' = taskIds \<union> task_id ` set tasks"
  by (induction tasks arbitrary: taskIds) auto

lemma addTaskIds_Inl:
  \<open>addTaskIds taskIds tasks = Inl err \<Longrightarrow>
     \<exists>t \<in> set tasks. err = Some (''Duplicate task ID found: "'' @ task_id t @ ''"'')\<close>
  by (induction tasks arbitrary: taskIds) (auto split: if_splits)

lemma checkSections_Inr_iff:
  "checkSections taskIds sections = Inr ids' \<longleftrightarrow>
     (\<forall>s \<in> set sections. validateSection s = None) \<and>
     distinct (map task_id (allTasks sections)) \<and>
     task_id ` set (allTasks sections) \<inter> taskIds = {} \<and>
     ids' = taskIds \<union> task_id ` set (allTasks sections)"
proof (induction sections arbitrary: taskIds)
  case Nil
  then show ?case by auto
next
  case (Cons s ss)
  show ?case
  proof (cases "validateSection s")
    case (Some e)
    then have "truthy (validateSection s)"
      by (simp add: truthy_def validateSection_truthy)
    with Some show ?thesis by simp
  next
    case None
    show ?thesis
    proof (cases "addTaskIds taskIds (section_tasks s)")
      case (Inl err)
      then have "\<not> (distinct (map task_id (section_tasks s)) \<and>
                  task_id ` set (section_tasks s) \<inter> taskIds = {})"
        using addTaskIds_Inr_iff [of taskIds "section_tasks s"] by auto
      with None Inl show ?thesis
        by (auto simp: truthy_def)
    next
      case (Inr ids1)
      then have 1: "distinct (map task_id (section_tasks s))"
        "task_id ` set (section_tasks s) \<inter> taskIds = {}"
        "ids1 = taskIds \<union> task_id ` set (section_tasks s)"
        by (simp_all add: addTaskIds_Inr_iff)
      from None Inr have "checkSections taskIds (s # ss) = checkSections ids1 ss"
        by (simp add: truthy_def)
      then have "checkSections taskIds (s # ss) = Inr ids' \<longleftrightarrow>
          (\<forall>s \<in> set ss. validateSection s = None) \<and>
          distinct (map task_id (allTasks ss)) \<and>
          task_id ` set (allTasks ss) \<inter> ids1 = {} \<and>
          ids' = ids1 \<union> task_id ` set (allTasks ss)"
        by (simp only: Cons.IH)
      also have "\<dots> \<longleftrightarrow>
          (\<forall>s \<in> set (s # ss). validateSection s = None) \<and>
          distinct (map task_id (allTasks (s # ss))) \<and>
          task_id ` set (allTasks (s # ss)) \<inter> taskIds = {} \<and>
          ids' = taskIds \<union> task_id ` set (allTasks (s # ss))"
        using None 1 by (simp del: set_concat add: image_Un) blast
      finally show ?thesis .
    qed
  qed
qed

text \<open>The first pass stops at the first section that fails.\<close>

lemma checkSections_append:
  "checkSections taskIds (pre @ rest) =
     (case checkSections taskIds pre of
        Inl err \<Rightarrow> Inl err
      | Inr ids1 \<Rightarrow> checkSections ids1 rest)"
  by (induction pre arbitrary: taskIds) (auto simp: Let_def split: sum.splits)

text \<open>The second pass fails exactly on an \<open>after\<close> that names no collected id.\<close>

lemma checkTaskDependencies_None_iff:
  "checkTaskDependencies taskIds tasks = None \<longleftrightarrow>
     (\<forall>t \<in> set tasks. \<forall>a. task_after t = Some a \<and> a \<noteq> [] \<longrightarrow> a \<in> taskIds)"
  by (induction tasks) (auto split: option.splits)

lemma checkTaskDependencies_Some:
  \<open>checkTaskDependencies taskIds tasks = Some e \<Longrightarrow>
     \<exists>t \<in> set tasks. \<exists>a. task_after t = Some a \<and> a \<noteq> [] \<and> a \<notin> taskIds \<and>
       e = ''Task "'' @ task_id t @ ''" depends on non-existent task: "'' @ a @ ''"''\<close>
  by (induction tasks) (auto split: option.splits if_splits)

lemma checkDependencies_None_iff:
  "checkDependencies taskIds sections = None \<longleftrightarrow>
     (\<forall>t \<in> set (allTasks sections). \<forall>a. task_after t = Some a \<and> a \<noteq> [] \<longrightarrow> a \<in> taskIds)"
proof (induction sections)
  case Nil
  then show ?case by simp
next
  case (Cons s ss)
  have "checkDependencies taskIds (s # ss) = None \<longleftrightarrow>
      checkTaskDependencies taskIds (section_tasks s) = None \<and>
      checkDependencies taskIds ss = None"
    by (simp split: option.splits)
  then show ?case
    unfolding Cons.IH checkTaskDependencies_None_iff
    by (simp del: set_concat add: ball_Un)
qed

lemma checkDependencies_Some:
  \<open>checkDependencies taskIds sections = Some e \<Longrightarrow>
     \<exists>t \<in> set (allTasks sections). \<exists>a. task_after t = Some a \<and> a \<noteq> [] \<and> a \<notin> taskIds \<and>
       e = ''Task "'' @ task_id t @ ''" depends on non-existent task: "'' @ a @ ''"''\<close>
proof (induction sections)
  case Nil
  then show ?case by simp
next
  case (Cons s ss)
  show ?case
  proof (cases "checkTaskDependencies taskIds (section_tasks s)")
    case None
    with Cons show ?thesis by auto
  next
    case (Some e')
    with Cons.prems have "e' = e" by simp
    with Some checkTaskDependencies_Some [of taskIds "section_tasks s" e] show ?thesis
      by auto
  qed
qed

text \<open>
  Claim C1 (amended). The duplicate-id check is interleaved with the structural checks,
  section by section: once a section has passed its structural checks, its task ids are
  compared with all ids seen so far, before the next section is validated. So, when the
  sections before some section \<open>s\<close> are structurally valid and hold no duplicate id, a
  structural error of \<open>s\<close> is reported, whatever duplicates \<open>s\<close> and the later sections
  hold; and when \<open>s\<close> is structurally valid and one of its tasks repeats an id of \<open>s\<close> or
  of an earlier section, the duplicate-id error is reported, whatever structural errors
  the later sections hold.
\<close>

theorem validateGanttData_error_order:
  assumes "data_sections d = pre @ s # post"
    and "\<forall>p \<in> set pre. validateSection p = None"
    and "distinct (map task_id (allTasks pre))"
  shows \<open>(\<forall>e. validateSection s = Some e \<longrightarrow> validateGanttData (Some d) = Some e)
       \<and> (validateSection s = None \<and> \<not> distinct (map task_id (allTasks (pre @ [s])))
            \<longrightarrow> (\<exists>t \<in> set (section_tasks s).
                   validateGanttData (Some d) =
                     Some (''Duplicate task ID found: "'' @ task_id t @ ''"'')))\<close>
proof -
  let ?ids = "task_id ` set (allTasks pre)"
  from assms(2,3) have "checkSections {} pre = Inr ?ids"
    by (simp add: checkSections_Inr_iff)
  then have "checkSections {} (data_sections d) = checkSections ?ids (s # post)"
    by (simp add: assms(1) checkSections_append)
  with assms(1) have v: "validateGanttData (Some d) =
      (case checkSections ?ids (s # post) of
         Inl err \<Rightarrow> err
       | Inr taskIds \<Rightarrow> checkDependencies taskIds (data_sections d))"
    by (simp add: validateGanttData_def)
  have a: "validateGanttData (Some d) = Some e" if "validateSection s = Some e" for e
  proof -
    from that have "truthy (validateSection s)"
      by (simp add: truthy_def validateSection_truthy)
    with that show ?thesis by (simp add: v)
  qed
  have b: "\<exists>t \<in> set (section_tasks s).
      validateGanttData (Some d) = Some (''Duplicate task ID found: \"'' @ task_id t @ ''\"'')"
    if valid: "validateSection s = None"
      and dup: "\<not> distinct (map task_id (allTasks (pre @ [s])))"
  proof -
    from dup assms(3) have "\<not> (distinct (map task_id (section_tasks s)) \<and>
        task_id ` set (section_tasks s) \<inter> ?ids = {})"
      by (simp del: set_concat) blast
    then obtain err where err: "addTaskIds ?ids (section_tasks s) = Inl err"
      using addTaskIds_Inr_iff [of ?ids "section_tasks s"]
      by (cases "addTaskIds ?ids (section_tasks s)") auto
    from addTaskIds_Inl [OF err] obtain t where t: "t \<in> set (section_tasks s)"
      "err = Some (''Duplicate task ID found: \"'' @ task_id t @ ''\"'')"
      by blast
    from valid err have "checkSections ?ids (s # post) = Inl err"
      by (simp add: truthy_def)
    with t show ?thesis by (auto simp: v)
  qed
  from a b show ?thesis by blast
qed

theorem validateGanttData_error_order_witness:
  \<open>validateSection \<lparr>section_name = ''Section 1'', section_tasks =
       [createTask ''task1'' ''Task 1'' ''2024-01-01'' (Finite False 5 1) ''d'' None]\<rparr> = None \<and>
   validateSection \<lparr>section_name = ''Section 2'', section_tasks =
       [createTask ''task2'' [] ''2024-01-05'' (Finite False 3 1) ''d'' None,
        createTask ''task1'' ''Task 1 again'' ''2024-01-09'' (Finite False 2 1) ''d'' None]\<rparr> =
     Some ''Task "task2" in section "Section 2" is missing a name'' \<and>
   validateGanttData (Some \<lparr>data_config = None, data_sections =
     [\<lparr>section_name = ''Section 1'', section_tasks =
         [createTask ''task1'' ''Task 1'' ''2024-01-01'' (Finite False 5 1) ''d'' None]\<rparr>,
      \<lparr>section_name = ''Section 2'', section_tasks =
         [createTask ''task2'' [] ''2024-01-05'' (Finite False 3 1) ''d'' None,
          createTask ''task1'' ''Task 1 again'' ''2024-01-09'' (Finite False 2 1) ''d'' None]\<rparr>]\<rparr>) =
     Some ''Task "task2" in section "Section 2" is missing a name'' \<and>
   validateSection \<lparr>section_name = ''Section 2'', section_tasks =
       [createTask ''task1'' ''Task 2'' ''2024-01-05'' (Finite False 3 1) ''d'' None]\<rparr> = None \<and>
   validateGanttData (Some \<lparr>data_config = None, data_sections =
     [\<lparr>section_name = ''Section 1'', section_tasks =
         [createTask ''task1'' ''Task 1'' ''2024-01-01'' (Finite False 5 1) ''d'' None]\<rparr>,
      \<lparr>section_name = ''Section 2'', section_tasks =
         [createTask ''task1'' ''Task 2'' ''2024-01-05'' (Finite False 3 1) ''d'' None]\<rparr>,
      \<lparr>section_name = ''Section 3'', section_tasks =
         [createTask ''task3'' [] ''2024-01-09'' (Finite False 2 1) ''d'' None]\<rparr>]\<rparr>) =
     Some ''Duplicate task ID found: "task1"''\<close>
proof -
  let ?s1 = "\<lparr>section_name = ''Section 1'', section_tasks =
       [createTask ''task1'' ''Task 1'' ''2024-01-01'' (Finite False 5 1) ''d'' None]\<rparr>"
  let ?s2 = "\<lparr>section_name = ''Section 2'', section_tasks =
       [createTask ''task2'' [] ''2024-01-05'' (Finite False 3 1) ''d'' None,
        createTask ''task1'' ''Task 1 again'' ''2024-01-09'' (Finite False 2 1) ''d'' None]\<rparr>"
  let ?d = "\<lparr>data_config = None, data_sections = [?s1, ?s2]\<rparr>"
  let ?t2 = "\<lparr>section_name = ''Section 2'', section_tasks =
       [createTask ''task1'' ''Task 2'' ''2024-01-05'' (Finite False 3 1) ''d'' None]\<rparr>"
  let ?t3 = "\<lparr>section_name = ''Section 3'', section_tasks =
       [createTask ''task3'' [] ''2024-01-09'' (Finite False 2 1) ''d'' None]\<rparr>"
  let ?e = "\<lparr>data_config = None, data_sections = [?s1, ?t2, ?t3]\<rparr>"
  have h1: "data_sections ?d = [?s1] @ ?s2 # []"
    and k1: "data_sections ?e = [?s1] @ ?t2 # [?t3]"
    by simp_all
  have v1: "validateSection ?s1 = None"
    by (simp add: validate_eval)
  then have h2: "\<forall>p \<in> set [?s1]. validateSection p = None" by simp
  have h3: "distinct (map task_id (allTasks [?s1]))" by simp
  have v2: "validateSection ?s2 = Some ''Task \"task2\" in section \"Section 2\" is missing a name''"
    by (simp add: validate_eval)
  have w2: "validateSection ?t2 = None"
    by (simp add: validate_eval)
  have dup: "\<not> distinct (map task_id (allTasks ([?s1] @ [?t2])))"
    by (simp add: task_constructors)
  from validateGanttData_error_order [OF h1 h2 h3] v2
  have "validateGanttData (Some ?d) =
      Some ''Task \"task2\" in section \"Section 2\" is missing a name''"
    by simp
  moreover from validateGanttData_error_order [OF k1 h2 h3] w2 dup
  have "validateGanttData (Some ?e) = Some ''Duplicate task ID found: \"task1\"''"
    by (simp add: task_constructors)
  ultimately show ?thesis
    using v1 v2 w2 by simp
qed

text \<open>The claim as stated fails when the duplicate is completed in an earlier section
  than the structural error: the third section holds a task without a name, and the
  duplicate of the second section is reported.\<close>

theorem validateGanttData_error_order_counterexample:
  \<open>validateTask (createTask ''task3'' [] ''2024-01-09'' (Finite False 2 1) ''d'' None) ''Section 3'' =
     Some ''Task "task3" in section "Section 3" is missing a name'' \<and>
   validateGanttData (Some \<lparr>data_config = None, data_sections =
     [\<lparr>section_name = ''Section 1'', section_tasks =
         [createTask ''task1'' ''Task 1'' ''2024-01-01'' (Finite False 5 1) ''d'' None]\<rparr>,
      \<lparr>section_name = ''Section 2'', section_tasks =
         [createTask ''task1'' ''Task 2'' ''2024-01-05'' (Finite False 3 1) ''d'' None]\<rparr>,
      \<lparr>section_name = ''Section 3'', section_tasks =
         [createTask ''task3'' [] ''2024-01-09'' (Finite False 2 1) ''d'' None]\<rparr>]\<rparr>) =
     Some ''Duplicate task ID found: "task1"''\<close>
  by (simp add: validate_eval)

text \<open>
  Claim C8. For a schedule that passes the earlier checks (it has sections, every section
  is structurally valid, no task id occurs twice), \<open>validateGanttData\<close> fails with the
  "depends on non-existent task" error, naming such a task and its reference, exactly
  when some task's \<open>after\<close> (a non-empty string) is the id of no task of the schedule,
  and it returns no error exactly when every \<open>after\<close> is the id of some task. Nothing
  else is checked: references that form a cycle, or a task that refers to itself, pass.
\<close>

theorem validateGanttData_dependencies:
  assumes "data_sections d \<noteq> []"
    and "\<forall>s \<in> set (data_sections d). validateSection s = None"
    and "distinct (map task_id (allTasks (data_sections d)))"
  shows \<open>((\<exists>t \<in> set (allTasks (data_sections d)). \<exists>a.
            task_after t = Some a \<and> a \<noteq> [] \<and>
            a \<notin> task_id ` set (allTasks (data_sections d)) \<and>
            validateGanttData (Some d) =
              Some (''Task "'' @ task_id t @ ''" depends on non-existent task: "'' @ a @ ''"''))
          \<longleftrightarrow> (\<exists>t \<in> set (allTasks (data_sections d)). \<exists>a.
                 task_after t = Some a \<and> a \<noteq> [] \<and>
                 a \<notin> task_id ` set (allTasks (data_sections d))))
       \<and> (validateGanttData (Some d) = None
          \<longleftrightarrow> (\<forall>t \<in> set (allTasks (data_sections d)). \<forall>a.
                 task_after t = Some a \<and> a \<noteq> [] \<longrightarrow>
                 a \<in> task_id ` set (allTasks (data_sections d))))\<close>
proof -
  let ?ids = "task_id ` set (allTasks (data_sections d))"
  from assms(2,3) have "checkSections {} (data_sections d) = Inr ?ids"
    by (simp add: checkSections_Inr_iff)
  with assms(1) have v: "validateGanttData (Some d) = checkDependencies ?ids (data_sections d)"
    by (simp add: validateGanttData_def)
  have none: "validateGanttData (Some d) = None
          \<longleftrightarrow> (\<forall>t \<in> set (allTasks (data_sections d)). \<forall>a.
                 task_after t = Some a \<and> a \<noteq> [] \<longrightarrow> a \<in> ?ids)"
    unfolding v by (rule checkDependencies_None_iff)
  have some: "\<exists>t \<in> set (allTasks (data_sections d)). \<exists>a.
            task_after t = Some a \<and> a \<noteq> [] \<and> a \<notin> ?ids \<and>
            validateGanttData (Some d) =
              Some (''Task \"'' @ task_id t @ ''\" depends on non-existent task: \"'' @ a @ ''\"'')"
    if "\<exists>t \<in> set (allTasks (data_sections d)). \<exists>a.
                 task_after t = Some a \<and> a \<noteq> [] \<and> a \<notin> ?ids"
  proof -
    from that none obtain e where e: "validateGanttData (Some d) = Some e"
      by (cases "validateGanttData (Some d)") blast+
    with v have "checkDependencies ?ids (data_sections d) = Some e" by simp
    from checkDependencies_Some [OF this] e show ?thesis by simp
  qed
  from none some show ?thesis by blast
qed

text \<open>A cycle \<open>a \<rightarrow> b \<rightarrow> a\<close> and a self-reference \<open>c \<rightarrow> c\<close> pass; a dangling reference fails.\<close>

theorem validateGanttData_dependencies_witness:
  \<open>validateGanttData (Some \<lparr>data_config = None, data_sections =
     [\<lparr>section_name = ''Cycle'', section_tasks =
         [createDependentTask ''a'' ''Task A'' ''b'' (Finite False 1 1) ''d'' None,
          createDependentTask ''b'' ''Task B'' ''a'' (Finite False 1 1) ''d'' None,
          createDependentTask ''c'' ''Task C'' ''c'' (Finite False 1 1) ''d'' None]\<rparr>]\<rparr>) = None \<and>
   validateGanttData (Some \<lparr>data_config = None, data_sections =
     [\<lparr>section_name = ''Development'', section_tasks =
         [createDependentTask ''task1'' ''Task'' ''nonexistent'' (Finite False 5 1) ''d'' None]\<rparr>]\<rparr>) =
     Some ''Task "task1" depends on non-existent task: "nonexistent"''\<close>
proof -
  let ?cyc = "\<lparr>data_config = None, data_sections =
     [\<lparr>section_name = ''Cycle'', section_tasks =
         [createDependentTask ''a'' ''Task A'' ''b'' (Finite False 1 1) ''d'' None,
          createDependentTask ''b'' ''Task B'' ''a'' (Finite False 1 1) ''d'' None,
          createDependentTask ''c'' ''Task C'' ''c'' (Finite False 1 1) ''d'' None]\<rparr>]\<rparr>"
  let ?bad = "\<lparr>data_config = None, data_sections =
     [\<lparr>section_name = ''Development'', section_tasks =
         [createDependentTask ''task1'' ''Task'' ''nonexistent'' (Finite False 5 1) ''d'' None]\<rparr>]\<rparr>"
  have c1: "data_sections ?cyc \<noteq> []" and b1: "data_sections ?bad \<noteq> []" by simp_all
  have c2: "\<forall>s \<in> set (data_sections ?cyc). validateSection s = None"
    and b2: "\<forall>s \<in> set (data_sections ?bad). validateSection s = None"
    by (simp_all add: validate_eval)
  have c3: "distinct (map task_id (allTasks (data_sections ?cyc)))"
    and b3: "distinct (map task_id (allTasks (data_sections ?bad)))"
    by (simp_all add: task_constructors)
  from validateGanttData_dependencies [OF c1 c2 c3]
  have "validateGanttData (Some ?cyc) = None"
    by (simp add: task_constructors)
  moreover from validateGanttData_dependencies [OF b1 b2 b3]
  have "validateGanttData (Some ?bad) =
     Some ''Task \"task1\" depends on non-existent task: \"nonexistent\"''"
    by (simp add: task_constructors)
  ultimately show ?thesis by simp
qed

end
